theory Spec2Isabelle
  imports Complex_Main
begin

section \<open>Numbers and the three.js value types\<close>

text \<open>
  JavaScript numbers are IEEE 754 doubles. They are idealised here as real numbers:
  every theorem below speaks about the formulas the code evaluates, read over the reals.
  The one place where the reals and the doubles differ in kind is the quotient
  \<open>camera.size / viewport.height\<close> at \<open>height = 0\<close>: it is infinite or NaN in
  JavaScript and \<open>0\<close> in HOL. The theorems state the quotient as the code writes it,
  for every height.
\<close>

type_synonym number = real

text \<open>\<open>THREE.Vector3\<close> (x, y, z) and \<open>THREE.Quaternion\<close> (x, y, z, w).\<close>

datatype Vector3 = Vector3 number number number

datatype Quaternion = Quaternion number number number number

text \<open>\<open>THREE.Matrix4\<close>: the sixteen entries of \<open>elements\<close>, in array order (column-major).\<close>

datatype Matrix4 = Matrix4
  number number number number
  number number number number
  number number number number
  number number number number

section \<open>The objects the pose task reads and writes\<close>

text \<open>
  A camera as \<open>tick\<close> reads it: the \<open>isOrthographicCamera\<close> flag, the orthographic
  \<open>size\<close> and the world matrix.
\<close>

record Camera =
  isOrthographicCamera :: bool
  camera_size :: number
  matrixWorld :: Matrix4

text \<open>A viewport: its camera (possibly \<open>null\<close>) and its height in pixels.\<close>

record Viewport =
  camera :: "Camera option"
  height :: number

text \<open>
  A model component. \<open>object3D_matrix\<close> is \<open>model.object3D.matrix\<close>, the local matrix
  \<open>tick\<close> reads; \<open>pose\<close> is the pose last written by \<open>setFromMatrix\<close>.
\<close>

record CVModel2 =
  object3D_matrix :: Matrix4
  pose :: Matrix4

text \<open>
  Modelled from the spec: \<open>CVModel2.setFromMatrix\<close> is declared in \<open>CVModel2.ts\<close>, which is
  not among the sources. The spec says of the composed matrix: "Write the resulting matrix
  back as the model's pose."
\<close>

definition setFromMatrix :: "CVModel2 \<Rightarrow> Matrix4 \<Rightarrow> CVModel2" where
  "setFromMatrix model m = model\<lparr>pose := m\<rparr>"

text \<open>
  Models and viewports are shared mutable objects; the task holds references to them.
  A reference is an address into a store.
\<close>

type_synonym model_ref = nat
type_synonym viewport_ref = nat

text \<open>A scene node: \<open>next.model\<close> is the node's model component, if it has one.\<close>

record NVNode =
  model :: "model_ref option"

text \<open>
  The views of the renderer. \<open>EQuadViewLayout\<close> is declared in \<open>@ff/scene/RenderQuadView\<close>;
  the task only ever writes \<open>Single\<close> and \<open>Quad\<close>. A view that is not an instance of
  \<open>RenderQuadView\<close> is \<open>OtherView\<close>.
\<close>

datatype EQuadViewLayout = Single | HorizontalSplit | VerticalSplit | Quad

datatype View = RenderQuadView EQuadViewLayout | OtherView

text \<open>
  A pointer event as \<open>onPointer\<close> reads it: \<open>buttons\<close> is \<open>event.originalEvent.buttons\<close>;
  \<open>viewport\<close> is the viewport the event came from.
\<close>

record IPointerEvent =
  type :: string
  buttons :: nat
  ctrlKey :: bool
  shiftKey :: bool
  movementX :: number
  movementY :: number
  viewport :: "viewport_ref option"
  stopPropagation :: bool

section \<open>The three.js operations the task calls\<close>

text \<open>
  three.js is a third-party library, not part of the repository. Its operations are
  parameters of the model: every theorem holds for whatever these functions compute.
  In-place methods return the new value of the object they overwrite.
  \<^item> \<open>decompose m\<close>: \<open>m.decompose(position, quaternion, scale)\<close>;
  \<^item> \<open>applyQuaternion v q\<close>: \<open>v.applyQuaternion(q)\<close>;
  \<^item> \<open>setFromAxisAngle axis angle\<close>: \<open>q.setFromAxisAngle(axis, angle)\<close>;
  \<^item> \<open>makeRotationFromQuaternion q\<close>: \<open>m.makeRotationFromQuaternion(q)\<close>;
  \<^item> \<open>identity\<close>: \<open>m.identity()\<close>;
  \<^item> \<open>setPosition m v\<close>: \<open>m.setPosition(v)\<close>;
  \<^item> \<open>multiply a b\<close>: \<open>a.multiply(b)\<close>, which overwrites \<open>a\<close>;
  \<^item> \<open>boundingBoxSize model\<close>: the size of \<open>Box3.makeEmpty().expandByObject(model.object3D)\<close>.
\<close>

record THREE =
  decompose :: "Matrix4 \<Rightarrow> Vector3 \<times> Quaternion \<times> Vector3"
  applyQuaternion :: "Vector3 \<Rightarrow> Quaternion \<Rightarrow> Vector3"
  setFromAxisAngle :: "Vector3 \<Rightarrow> number \<Rightarrow> Quaternion"
  makeRotationFromQuaternion :: "Quaternion \<Rightarrow> Matrix4"
  identity :: Matrix4
  setPosition :: "Matrix4 \<Rightarrow> Vector3 \<Rightarrow> Matrix4"
  multiply :: "Matrix4 \<Rightarrow> Matrix4 \<Rightarrow> Matrix4"
  boundingBoxSize :: "CVModel2 \<Rightarrow> Vector3"

section \<open>CVPoseTask\<close>

datatype EPoseManipMode = Off | Translate | Rotate

text \<open>
  The task and what it reaches through the framework.
  \<^item> \<open>ins_mode\<close> is \<open>this.ins.mode.value\<close>, \<open>outs_size\<close> is \<open>this.outs.size.value\<close>;
  \<^item> \<open>p_viewport\<close>, \<open>p_deltaX\<close>, \<open>p_deltaY\<close> are the private fields \<open>_viewport\<close>,
    \<open>_deltaX\<close>, \<open>_deltaY\<close>;
  \<^item> \<open>activeModel\<close> is the protected field of that name;
  \<^item> \<open>isActiveTask\<close> is the getter inherited from \<open>CVTask\<close>;
  \<^item> \<open>pointerListening\<close>: \<open>this.onPointer\<close> is subscribed to the system's
    pointer-down, pointer-up and pointer-move events;
  \<^item> \<open>observing\<close>: the task observes active node and active document changes;
  \<^item> \<open>views\<close> is \<open>this.renderer.views\<close>;
  \<^item> \<open>selectedComponent\<close> is the selection's selected component;
  \<^item> \<open>console\<close> collects the lines written by \<open>console.log\<close>;
  \<^item> \<open>models\<close> and \<open>viewports\<close> are the stores of the shared objects.
\<close>

record CVPoseTask =
  ins_mode :: EPoseManipMode
  outs_size :: Vector3
  p_viewport :: "viewport_ref option"
  p_deltaX :: number
  p_deltaY :: number
  activeModel :: "model_ref option"
  isActiveTask :: bool
  pointerListening :: bool
  observing :: bool
  views :: "View list"
  selectedComponent :: "model_ref option"
  console :: "string list"
  models :: "model_ref \<Rightarrow> CVModel2"
  viewports :: "viewport_ref \<Rightarrow> Viewport"

text \<open>
  The field initialisers of the class: mode \<open>Off\<close>, no viewport, zero deltas, no active
  model. The stores and the renderer's views are given by the surrounding system.
\<close>

definition new_CVPoseTask ::
  "(model_ref \<Rightarrow> CVModel2) \<Rightarrow> (viewport_ref \<Rightarrow> Viewport) \<Rightarrow> View list \<Rightarrow> CVPoseTask" where
  "new_CVPoseTask ms vps vs =
     \<lparr> ins_mode = Off, outs_size = Vector3 0 0 0,
       p_viewport = None, p_deltaX = 0, p_deltaY = 0,
       activeModel = None, isActiveTask = False,
       pointerListening = False, observing = False,
       views = vs, selectedComponent = None, console = [],
       models = ms, viewports = vps \<rparr>"

subsection \<open>activateTask and deactivateTask\<close>

text \<open>
  Modelled from the spec: \<open>CVTask.activateTask\<close>, \<open>CVTask.deactivateTask\<close>,
  \<open>startObserving\<close>, \<open>stopObserving\<close> and the system's \<open>on\<close>/\<open>off\<close> are not among the
  sources. The spec: "while active, subscribes to pointer-down/up/move notifications
  system-wide and to active-node/active-document change notifications; on deactivation,
  unsubscribes from both"; the per-frame update "runs once per render tick while the task
  is active". So \<open>super.activateTask()\<close> sets \<open>isActiveTask\<close>, \<open>super.deactivateTask()\<close>
  clears it, and the subscriptions are the two flags.
\<close>

definition setLayout :: "EQuadViewLayout \<Rightarrow> View \<Rightarrow> View" where
  "setLayout l view = (case view of RenderQuadView _ \<Rightarrow> RenderQuadView l | OtherView \<Rightarrow> OtherView)"

definition activateTask :: "CVPoseTask \<Rightarrow> CVPoseTask" where
  "activateTask this =
     (let this = this\<lparr>pointerListening := True\<rparr>;
          this = this\<lparr>views := map (setLayout Quad) (views this)\<rparr>;
          this = this\<lparr>observing := True\<rparr>
      in this\<lparr>isActiveTask := True\<rparr>)"

definition deactivateTask :: "CVPoseTask \<Rightarrow> CVPoseTask" where
  "deactivateTask this =
     (let this = this\<lparr>isActiveTask := False\<rparr>;
          this = this\<lparr>observing := False\<rparr>;
          this = this\<lparr>views := map (setLayout Single) (views this)\<rparr>
      in this\<lparr>pointerListening := False\<rparr>)"

subsection \<open>tick\<close>

text \<open>
  What a call of \<open>tick\<close> does: it returns a boolean, or it throws a \<open>TypeError\<close> (reading
  \<open>this._viewport.camera\<close> while \<open>_viewport\<close> is \<open>null\<close>). The state is returned in both
  cases, as the call left it.
\<close>

datatype completion = Returned bool | TypeError

definition tick :: "THREE \<Rightarrow> CVPoseTask \<Rightarrow> completion \<times> CVPoseTask" where
  "tick lib this =
     (if \<not> isActiveTask this then (Returned False, this)
      else
        let mode = ins_mode this in
        if mode = Off then (Returned False, this)
        else case activeModel this of
          None \<Rightarrow> (Returned False, this)
        | Some am \<Rightarrow>
            let deltaX = p_deltaX this; deltaY = p_deltaY this in
            if deltaX = 0 \<and> deltaY = 0 then (Returned False, this)
            else
              let this = this\<lparr>p_deltaX := 0, p_deltaY := 0\<rparr> in
              case p_viewport this of
                None \<Rightarrow> (TypeError, this)
              | Some vp \<Rightarrow>
                  (case camera (viewports this vp) of
                     None \<Rightarrow> (Returned False, this)
                   | Some cam \<Rightarrow>
                       if \<not> isOrthographicCamera cam then (Returned False, this)
                       else
                         let quat0 = fst (snd (decompose lib (matrixWorld cam)));
                             mat4 =
                               (if mode = Rotate then
                                  let angle = (deltaX - deltaY) * 0.002;
                                      axis = applyQuaternion lib (Vector3 0 0 (- 1)) quat0;
                                      quat1 = setFromAxisAngle lib axis angle
                                  in makeRotationFromQuaternion lib quat1
                                else
                                  let f = camera_size cam / height (viewports this vp);
                                      axis = applyQuaternion lib
                                               (Vector3 (deltaX * f) (- deltaY * f) 0) quat0
                                  in setPosition lib (identity lib) axis);
                             mat4 = multiply lib mat4 (object3D_matrix (models this am));
                             written = setFromMatrix (models this am) mat4
                         in (Returned True, this\<lparr>models := fun_upd (models this) am written\<rparr>)))"

subsection \<open>onActiveNode and onModelBoundingBox\<close>

definition onModelBoundingBox :: "THREE \<Rightarrow> CVPoseTask \<Rightarrow> CVPoseTask" where
  "onModelBoundingBox lib this =
     (let this = (case activeModel this of
                    None \<Rightarrow> this
                  | Some am \<Rightarrow> this\<lparr>outs_size := boundingBoxSize lib (models this am)\<rparr>)
      in this\<lparr>console := console this @ [''on bounding box'']\<rparr>)"

text \<open>
  \<open>this.activeModel = next && next.model\<close>: no model when \<open>next\<close> is \<open>null\<close> or has none.
  Modelled from the spec: \<open>selection.selectComponent\<close> is not among the sources; the spec
  says "select it in the scene's selection state".
\<close>

definition onActiveNode :: "THREE \<Rightarrow> NVNode option \<Rightarrow> NVNode option \<Rightarrow> CVPoseTask \<Rightarrow> CVPoseTask" where
  "onActiveNode lib previous next this =
     (let this = this\<lparr>activeModel := (case next of None \<Rightarrow> None | Some n \<Rightarrow> model n)\<rparr> in
      case activeModel this of
        None \<Rightarrow> this
      | Some am \<Rightarrow> onModelBoundingBox lib (this\<lparr>selectedComponent := Some am\<rparr>))"

subsection \<open>onPointer\<close>

text \<open>The handler mutates the event (\<open>stopPropagation\<close>) and the task; both are returned.\<close>

definition onPointer :: "IPointerEvent \<Rightarrow> CVPoseTask \<Rightarrow> IPointerEvent \<times> CVPoseTask" where
  "onPointer event this =
     (if ins_mode this = Off \<or> activeModel this = None then (event, this)
      else if buttons event = 1 then
        if type event = ''pointer-move'' then
          let speed = (if ctrlKey event then 0.1 else if shiftKey event then 10 else 1);
              this = this\<lparr>p_deltaX := p_deltaX this + movementX event * speed\<rparr>;
              this = this\<lparr>p_deltaY := p_deltaY this + movementY event * speed\<rparr>;
              this = this\<lparr>p_viewport := viewport event\<rparr>
          in (event\<lparr>stopPropagation := True\<rparr>, this)
        else (event, this)
      else (event, this))"

subsection \<open>The task driven by the system\<close>

text \<open>
  The system delivers a pointer event to \<open>onPointer\<close> only while the handler is
  subscribed (see \<open>activateTask\<close>).
\<close>

definition emitPointer :: "IPointerEvent \<Rightarrow> CVPoseTask \<Rightarrow> IPointerEvent \<times> CVPoseTask" where
  "emitPointer event this =
     (if pointerListening this then onPointer event this else (event, this))"

text \<open>
  What happens to a task between changes of the active node: the render loop calls
  \<open>tick\<close>, the system emits pointer events, and the \<open>mode\<close> input is set from outside.
  An exception thrown by \<open>tick\<close> ends that call only; the run goes on from the state the
  call left.
\<close>

datatype action = Tick | Pointer IPointerEvent | SetMode EPoseManipMode

datatype outcome = Ticked completion | Dispatched IPointerEvent | ModeSet

fun step :: "THREE \<Rightarrow> action \<Rightarrow> CVPoseTask \<Rightarrow> outcome \<times> CVPoseTask" where
  "step lib Tick this = (let (c, this') = tick lib this in (Ticked c, this'))"
| "step lib (Pointer event) this =
     (let (event', this') = emitPointer event this in (Dispatched event', this'))"
| "step lib (SetMode m) this = (ModeSet, this\<lparr>ins_mode := m\<rparr>)"

fun run :: "THREE \<Rightarrow> action list \<Rightarrow> CVPoseTask \<Rightarrow> outcome list \<times> CVPoseTask" where
  "run lib [] this = ([], this)"
| "run lib (a # as) this =
     (let (out, this') = step lib a this;
          (outs, this'') = run lib as this'
      in (out # outs, this''))"

text \<open>A drag: the handler called on each event in turn, as the system does while it is subscribed.\<close>

fun onPointers :: "IPointerEvent list \<Rightarrow> CVPoseTask \<Rightarrow> IPointerEvent list \<times> CVPoseTask" where
  "onPointers [] this = ([], this)"
| "onPointers (event # events) this =
     (let (event', this') = onPointer event this;
          (events', this'') = onPointers events this'
      in (event' # events', this''))"

text \<open>The speed multiplier \<open>onPointer\<close> computes for an event, and the test for a move event.\<close>

definition speedOf :: "IPointerEvent \<Rightarrow> number" where
  "speedOf event = (if ctrlKey event then 0.1 else if shiftKey event then 10 else 1)"

definition isMove :: "IPointerEvent \<Rightarrow> bool" where
  "isMove event = (type event = ''pointer-move'')"

section \<open>ContentLayer\<close>

text \<open>
  The canvas as \<open>onResize\<close> measures it, the view as a log of the \<open>resize\<close> calls it
  received, and the custom events the element dispatched (name, \<open>detail.width\<close>,
  \<open>detail.height\<close>). \<open>RenderQuadView.resize\<close> and \<open>dispatchEvent\<close> belong to the
  framework and the browser.
\<close>

record HTMLCanvasElement =
  clientWidth :: nat
  clientHeight :: nat

record LayerView =
  resizeCalls :: "(nat \<times> nat) list"

record CustomEvent =
  eventName :: string
  detail_width :: nat
  detail_height :: nat

record ContentLayer =
  view :: "LayerView option"
  canvas :: "HTMLCanvasElement option"
  dispatched :: "CustomEvent list"

definition resizeEvent :: string where
  "resizeEvent = ''sv-resize''"

text \<open>Reading \<open>this.canvas.clientWidth\<close> while \<open>canvas\<close> is \<open>null\<close> throws.\<close>

datatype dom_error = NullCanvas

definition onResize :: "ContentLayer \<Rightarrow> dom_error + ContentLayer" where
  "onResize this =
     (case canvas this of
        None \<Rightarrow> Inl NullCanvas
      | Some c \<Rightarrow>
          let width = clientWidth c;
              height = clientHeight c;
              this = (case view this of
                        None \<Rightarrow> this
                      | Some v \<Rightarrow>
                          this\<lparr>view := Some (v\<lparr>resizeCalls := resizeCalls v @ [(width, height)]\<rparr>)\<rparr>)
          in Inr (this\<lparr>dispatched := dispatched this @
                    [\<lparr>eventName = resizeEvent, detail_width = width, detail_height = height\<rparr>]\<rparr>))"

section \<open>The spec's wording of the delta transforms\<close>

text \<open>
  The camera's decomposed world orientation: the quaternion that
  \<open>camera.matrixWorld.decompose(_vec3a, _quat0, _vec3a)\<close> leaves in \<open>_quat0\<close>.
\<close>

definition orientation :: "THREE \<Rightarrow> Camera \<Rightarrow> Quaternion" where
  "orientation lib cam = fst (snd (decompose lib (matrixWorld cam)))"

text \<open>
  The spec, Rotate mode: "rotation angle = (deltaX - deltaY) * 0.002 radians; rotation axis =
  camera's local -Z axis rotated into world space by the camera orientation; build a
  pure-rotation matrix from axis+angle."
\<close>

definition spec_rotation :: "THREE \<Rightarrow> Camera \<Rightarrow> number \<Rightarrow> number \<Rightarrow> Matrix4" where
  "spec_rotation lib cam deltaX deltaY =
     makeRotationFromQuaternion lib
       (setFromAxisAngle lib (applyQuaternion lib (Vector3 0 0 (- 1)) (orientation lib cam))
          ((deltaX - deltaY) * 0.002))"

text \<open>
  The spec, Translate mode: "scale factor f = camera.orthographicSize / viewportHeightPixels;
  displacement vector = (deltaX*f, -deltaY*f, 0) rotated into world space by camera
  orientation; build a pure-translation matrix from this vector." \<open>h\<close> is the viewport height.
\<close>

definition spec_translation :: "THREE \<Rightarrow> Camera \<Rightarrow> number \<Rightarrow> number \<Rightarrow> number \<Rightarrow> Matrix4" where
  "spec_translation lib cam h deltaX deltaY =
     setPosition lib (identity lib)
       (applyQuaternion lib
          (Vector3 (deltaX * (camera_size cam / h)) (- deltaY * (camera_size cam / h)) 0)
          (orientation lib cam))"

text \<open>The recorded viewport exists, has a camera, and the camera is orthographic.\<close>

definition orthographicSource :: "CVPoseTask \<Rightarrow> bool" where
  "orthographicSource s =
     (case p_viewport s of
        None \<Rightarrow> False
      | Some vp \<Rightarrow> (case camera (viewports s vp) of
                     None \<Rightarrow> False
                   | Some cam \<Rightarrow> isOrthographicCamera cam))"

text \<open>
  The spec: "the sum of movementX/Y * speedMultiplier over all intervening move events",
  and a move event "marked as consumed".
\<close>

definition dragSum :: "IPointerEvent list \<Rightarrow> number \<times> number" where
  "dragSum events =
     (sum_list (map (\<lambda>e. movementX e * speedOf e) (filter isMove events)),
      sum_list (map (\<lambda>e. movementY e * speedOf e) (filter isMove events)))"

definition consumed :: "IPointerEvent \<Rightarrow> IPointerEvent" where
  "consumed e = (if isMove e then e\<lparr>stopPropagation := True\<rparr> else e)"

section \<open>A library instance over the reals\<close>

text \<open>
  One instance of the library parameters, used to evaluate the theorems at concrete
  inputs: the usual quaternion and matrix formulas, over the reals, in the element order
  of \<open>Matrix4.elements\<close>.
\<close>

fun applyQuaternion_real :: "Vector3 \<Rightarrow> Quaternion \<Rightarrow> Vector3" where
  "applyQuaternion_real (Vector3 x y z) (Quaternion qx qy qz qw) =
     (let ix = qw * x + qy * z - qz * y;
          iy = qw * y + qz * x - qx * z;
          iz = qw * z + qx * y - qy * x;
          iw = - qx * x - qy * y - qz * z
      in Vector3 (ix * qw + iw * (- qx) + iy * (- qz) - iz * (- qy))
                 (iy * qw + iw * (- qy) + iz * (- qx) - ix * (- qz))
                 (iz * qw + iw * (- qz) + ix * (- qy) - iy * (- qx)))"

fun setFromAxisAngle_real :: "Vector3 \<Rightarrow> number \<Rightarrow> Quaternion" where
  "setFromAxisAngle_real (Vector3 x y z) angle =
     (let halfAngle = angle / 2; s = sin halfAngle
      in Quaternion (x * s) (y * s) (z * s) (cos halfAngle))"

fun makeRotationFromQuaternion_real :: "Quaternion \<Rightarrow> Matrix4" where
  "makeRotationFromQuaternion_real (Quaternion x y z w) =
     (let x2 = x + x; y2 = y + y; z2 = z + z;
          xx = x * x2; xy = x * y2; xz = x * z2;
          yy = y * y2; yz = y * z2; zz = z * z2;
          wx = w * x2; wy = w * y2; wz = w * z2
      in Matrix4 (1 - (yy + zz)) (xy + wz) (xz - wy) 0
                 (xy - wz) (1 - (xx + zz)) (yz + wx) 0
                 (xz + wy) (yz - wx) (1 - (xx + yy)) 0
                 0 0 0 1)"

definition identity_real :: Matrix4 where
  "identity_real = Matrix4 1 0 0 0  0 1 0 0  0 0 1 0  0 0 0 1"

fun setPosition_real :: "Matrix4 \<Rightarrow> Vector3 \<Rightarrow> Matrix4" where
  "setPosition_real (Matrix4 e0 e1 e2 e3 e4 e5 e6 e7 e8 e9 e10 e11 e12 e13 e14 e15) (Vector3 x y z) =
     Matrix4 e0 e1 e2 e3 e4 e5 e6 e7 e8 e9 e10 e11 x y z e15"

text \<open>\<open>multiply_real a b\<close> is the matrix product \<open>a \<times> b\<close>; \<open>aij\<close> is row \<open>i\<close>, column \<open>j\<close>.\<close>

fun multiply_real :: "Matrix4 \<Rightarrow> Matrix4 \<Rightarrow> Matrix4" where
  "multiply_real (Matrix4 a11 a21 a31 a41 a12 a22 a32 a42 a13 a23 a33 a43 a14 a24 a34 a44)
                 (Matrix4 b11 b21 b31 b41 b12 b22 b32 b42 b13 b23 b33 b43 b14 b24 b34 b44) =
     Matrix4
       (a11 * b11 + a12 * b21 + a13 * b31 + a14 * b41)
       (a21 * b11 + a22 * b21 + a23 * b31 + a24 * b41)
       (a31 * b11 + a32 * b21 + a33 * b31 + a34 * b41)
       (a41 * b11 + a42 * b21 + a43 * b31 + a44 * b41)
       (a11 * b12 + a12 * b22 + a13 * b32 + a14 * b42)
       (a21 * b12 + a22 * b22 + a23 * b32 + a24 * b42)
       (a31 * b12 + a32 * b22 + a33 * b32 + a34 * b42)
       (a41 * b12 + a42 * b22 + a43 * b32 + a44 * b42)
       (a11 * b13 + a12 * b23 + a13 * b33 + a14 * b43)
       (a21 * b13 + a22 * b23 + a23 * b33 + a24 * b43)
       (a31 * b13 + a32 * b23 + a33 * b33 + a34 * b43)
       (a41 * b13 + a42 * b23 + a43 * b33 + a44 * b43)
       (a11 * b14 + a12 * b24 + a13 * b34 + a14 * b44)
       (a21 * b14 + a22 * b24 + a23 * b34 + a24 * b44)
       (a31 * b14 + a32 * b24 + a33 * b34 + a34 * b44)
       (a41 * b14 + a42 * b24 + a43 * b34 + a44 * b44)"

fun setFromRotationMatrix_real :: "Matrix4 \<Rightarrow> Quaternion" where
  "setFromRotationMatrix_real
     (Matrix4 m11 m21 m31 m41 m12 m22 m32 m42 m13 m23 m33 m43 m14 m24 m34 m44) =
     (let trace = m11 + m22 + m33 in
      if trace > 0 then
        let s = 0.5 / sqrt (trace + 1)
        in Quaternion ((m32 - m23) * s) ((m13 - m31) * s) ((m21 - m12) * s) (0.25 / s)
      else if m11 > m22 \<and> m11 > m33 then
        let s = 2 * sqrt (1 + m11 - m22 - m33)
        in Quaternion (0.25 * s) ((m12 + m21) / s) ((m13 + m31) / s) ((m32 - m23) / s)
      else if m22 > m33 then
        let s = 2 * sqrt (1 + m22 - m11 - m33)
        in Quaternion ((m12 + m21) / s) (0.25 * s) ((m23 + m32) / s) ((m13 - m31) / s)
      else
        let s = 2 * sqrt (1 + m33 - m11 - m22)
        in Quaternion ((m13 + m31) / s) ((m23 + m32) / s) (0.25 * s) ((m21 - m12) / s))"

fun determinant_real :: "Matrix4 \<Rightarrow> number" where
  "determinant_real (Matrix4 n11 n21 n31 n41 n12 n22 n32 n42 n13 n23 n33 n43 n14 n24 n34 n44) =
     n41 * (n14 * n23 * n32 - n13 * n24 * n32 - n14 * n22 * n33
            + n12 * n24 * n33 + n13 * n22 * n34 - n12 * n23 * n34)
   + n42 * (n11 * n23 * n34 - n11 * n24 * n33 + n14 * n21 * n33
            - n13 * n21 * n34 + n13 * n24 * n31 - n14 * n23 * n31)
   + n43 * (n11 * n24 * n32 - n11 * n22 * n34 - n14 * n21 * n32
            + n12 * n21 * n34 + n14 * n22 * n31 - n12 * n24 * n31)
   + n44 * (- n13 * n22 * n31 - n11 * n23 * n32 + n11 * n22 * n33
            + n13 * n21 * n32 - n12 * n21 * n33 + n12 * n23 * n31)"

fun decompose_real :: "Matrix4 \<Rightarrow> Vector3 \<times> Quaternion \<times> Vector3" where
  "decompose_real (Matrix4 e0 e1 e2 e3 e4 e5 e6 e7 e8 e9 e10 e11 e12 e13 e14 e15) =
     (let m = Matrix4 e0 e1 e2 e3 e4 e5 e6 e7 e8 e9 e10 e11 e12 e13 e14 e15;
          sx = sqrt (e0 * e0 + e1 * e1 + e2 * e2);
          sy = sqrt (e4 * e4 + e5 * e5 + e6 * e6);
          sz = sqrt (e8 * e8 + e9 * e9 + e10 * e10);
          sx = (if determinant_real m < 0 then - sx else sx);
          invSX = 1 / sx; invSY = 1 / sy; invSZ = 1 / sz;
          m1 = Matrix4 (e0 * invSX) (e1 * invSX) (e2 * invSX) e3
                       (e4 * invSY) (e5 * invSY) (e6 * invSY) e7
                       (e8 * invSZ) (e9 * invSZ) (e10 * invSZ) e11
                       e12 e13 e14 e15
      in (Vector3 e12 e13 e14, setFromRotationMatrix_real m1, Vector3 sx sy sz))"

definition three_real :: THREE where
  "three_real =
     \<lparr> decompose = decompose_real,
       applyQuaternion = applyQuaternion_real,
       setFromAxisAngle = setFromAxisAngle_real,
       makeRotationFromQuaternion = makeRotationFromQuaternion_real,
       identity = identity_real,
       setPosition = setPosition_real,
       multiply = multiply_real,
       boundingBoxSize = (\<lambda>m. Vector3 1 1 1) \<rparr>"

section \<open>Concrete inputs\<close>

text \<open>
  An orthographic camera of size 10 with the identity world matrix, in a viewport 500
  pixels high; a model at the identity pose and one scaled by 2; an activated task whose
  active model, recorded viewport, mode and accumulated delta are given.
\<close>

definition sample_camera :: Camera where
  "sample_camera = \<lparr>isOrthographicCamera = True, camera_size = 10, matrixWorld = identity_real\<rparr>"

definition sample_viewport :: Viewport where
  "sample_viewport = \<lparr>camera = Some sample_camera, height = 500\<rparr>"

definition sample_model :: CVModel2 where
  "sample_model = \<lparr>object3D_matrix = identity_real, pose = identity_real\<rparr>"

definition scaled_model :: CVModel2 where
  "scaled_model =
     \<lparr>object3D_matrix = Matrix4 2 0 0 0  0 2 0 0  0 0 2 0  0 0 0 1,
      pose = Matrix4 2 0 0 0  0 2 0 0  0 0 2 0  0 0 0 1\<rparr>"

definition sample_task :: "EPoseManipMode \<Rightarrow> number \<Rightarrow> number \<Rightarrow> CVPoseTask" where
  "sample_task mode dx dy =
     \<lparr> ins_mode = mode, outs_size = Vector3 0 0 0,
       p_viewport = Some 0, p_deltaX = dx, p_deltaY = dy,
       activeModel = Some 0, isActiveTask = True,
       pointerListening = True, observing = True,
       views = [RenderQuadView Quad, OtherView], selectedComponent = Some 0, console = [],
       models = (\<lambda>r. sample_model), viewports = (\<lambda>r. sample_viewport) \<rparr>"

definition scaled_task :: CVPoseTask where
  "scaled_task = (sample_task Translate 50 0)\<lparr>models := (\<lambda>r. scaled_model)\<rparr>"

definition perspective_task :: CVPoseTask where
  "perspective_task =
     (sample_task Translate 3 4)\<lparr>viewports :=
        (\<lambda>r. \<lparr>camera = Some (sample_camera\<lparr>isOrthographicCamera := False\<rparr>), height = 500\<rparr>)\<rparr>"

text \<open>A primary-button move event with the given movement and Ctrl/Shift state, and a pointer-up event.\<close>

definition sample_move :: "number \<Rightarrow> number \<Rightarrow> bool \<Rightarrow> bool \<Rightarrow> IPointerEvent" where
  "sample_move mx my ctrl shift =
     \<lparr> type = ''pointer-move'', buttons = 1, ctrlKey = ctrl, shiftKey = shift,
       movementX = mx, movementY = my, viewport = Some 0, stopPropagation = False \<rparr>"

definition sample_up :: IPointerEvent where
  "sample_up =
     \<lparr> type = ''pointer-up'', buttons = 1, ctrlKey = False, shiftKey = False,
       movementX = 7, movementY = 7, viewport = Some 0, stopPropagation = False \<rparr>"

definition sample_layer :: ContentLayer where
  "sample_layer =
     \<lparr> view = Some \<lparr>resizeCalls = []\<rparr>,
       canvas = Some \<lparr>clientWidth = 800, clientHeight = 600\<rparr>,
       dispatched = [] \<rparr>"

section \<open>Facts about the concrete inputs and the library instance\<close>

lemma sqrt_four: "sqrt 4 = 2"
  using real_sqrt_abs [of 2] by simp

lemma multiply_real_identity: "multiply_real m identity_real = m"
  by (cases m) (simp add: identity_real_def)

lemma three_real_fields:
  "decompose three_real = decompose_real" "applyQuaternion three_real = applyQuaternion_real"
  "setFromAxisAngle three_real = setFromAxisAngle_real"
  "makeRotationFromQuaternion three_real = makeRotationFromQuaternion_real"
  "identity three_real = identity_real" "setPosition three_real = setPosition_real"
  "multiply three_real = multiply_real"
  by (simp_all add: three_real_def)

lemma sample_orientation: "orientation three_real sample_camera = Quaternion 0 0 0 1"
  by (simp add: orientation_def three_real_def sample_camera_def identity_real_def sqrt_four)

lemma rotation_about_minus_z:
  "makeRotationFromQuaternion_real (setFromAxisAngle_real (Vector3 0 0 (- 1)) (2 * a)) =
     Matrix4 (cos (2 * a)) (- sin (2 * a)) 0 0
             (sin (2 * a)) (cos (2 * a)) 0 0
             0 0 1 0
             0 0 0 1"
proof -
  have c: "cos (2 * a) = 1 - 2 * (sin a * sin a)"
    using cos_double_sin [of a] by (simp add: power2_eq_square)
  have s: "sin (2 * a) = 2 * sin a * cos a"
    by (rule sin_double)
  show ?thesis
    by (simp add: Let_def c s)
qed

lemma sample_task_fields:
  "isActiveTask (sample_task mode dx dy)" "ins_mode (sample_task mode dx dy) = mode"
  "activeModel (sample_task mode dx dy) = Some 0" "p_deltaX (sample_task mode dx dy) = dx"
  "p_deltaY (sample_task mode dx dy) = dy" "p_viewport (sample_task mode dx dy) = Some 0"
  "viewports (sample_task mode dx dy) = (\<lambda>r. sample_viewport)"
  "models (sample_task mode dx dy) = (\<lambda>r. sample_model)"
  "(sample_task mode dx dy)\<lparr>p_deltaX := dx', p_deltaY := dy'\<rparr> = sample_task mode dx' dy'"
  by (simp_all add: sample_task_def)

lemma sample_object_fields:
  "camera sample_viewport = Some sample_camera" "height sample_viewport = 500"
  "isOrthographicCamera sample_camera" "camera_size sample_camera = 10"
  "object3D_matrix sample_model = identity_real"
  by (simp_all add: sample_viewport_def sample_camera_def sample_model_def)

lemma sample_move_fields:
  "type (sample_move mx my c sh) = ''pointer-move''" "buttons (sample_move mx my c sh) = 1"
  "ctrlKey (sample_move mx my c sh) = c" "shiftKey (sample_move mx my c sh) = sh"
  "movementX (sample_move mx my c sh) = mx" "movementY (sample_move mx my c sh) = my"
  "viewport (sample_move mx my c sh) = Some 0" "\<not> stopPropagation (sample_move mx my c sh)"
  by (simp_all add: sample_move_def)

section \<open>What a tick does\<close>

lemma tick_applies:
  assumes "isActiveTask s" "ins_mode s \<noteq> Off" "activeModel s = Some am"
    "p_deltaX s \<noteq> 0 \<or> p_deltaY s \<noteq> 0"
    "p_viewport s = Some vp" "camera (viewports s vp) = Some cam" "isOrthographicCamera cam"
  shows "tick lib s =
    (Returned True,
     s\<lparr>p_deltaX := 0, p_deltaY := 0,
       models := (models s)(am := setFromMatrix (models s am)
         (multiply lib
            (if ins_mode s = Rotate then spec_rotation lib cam (p_deltaX s) (p_deltaY s)
             else spec_translation lib cam (height (viewports s vp)) (p_deltaX s) (p_deltaY s))
            (object3D_matrix (models s am))))\<rparr>)"
  using assms
  by (auto simp: tick_def Let_def spec_rotation_def spec_translation_def orientation_def)

lemma tick_true_iff:
  "fst (tick lib s) = Returned True \<longleftrightarrow>
     isActiveTask s \<and> ins_mode s \<noteq> Off \<and> activeModel s \<noteq> None \<and>
     (p_deltaX s \<noteq> 0 \<or> p_deltaY s \<noteq> 0) \<and>
     (\<exists>vp cam. p_viewport s = Some vp \<and> camera (viewports s vp) = Some cam \<and>
        isOrthographicCamera cam)"
  by (auto simp: tick_def Let_def split: option.splits)

lemma tick_models_unchanged:
  "fst (tick lib s) \<noteq> Returned True \<Longrightarrow> models (snd (tick lib s)) = models s"
  by (auto simp: tick_def Let_def split: option.splits if_splits)

lemma tick_drains:
  "isActiveTask s \<Longrightarrow> ins_mode s \<noteq> Off \<Longrightarrow> activeModel s \<noteq> None \<Longrightarrow>
   p_deltaX (snd (tick lib s)) = 0 \<and> p_deltaY (snd (tick lib s)) = 0"
  by (auto simp: tick_def Let_def split: option.splits if_splits)

lemma tick_zero_delta:
  "p_deltaX s = 0 \<Longrightarrow> p_deltaY s = 0 \<Longrightarrow> tick lib s = (Returned False, s)"
  by (auto simp: tick_def Let_def split: option.splits if_splits)

lemma tick_no_model: "activeModel s = None \<Longrightarrow> tick lib s = (Returned False, s)"
  by (auto simp: tick_def Let_def)

lemma tick_inactive: "\<not> isActiveTask s \<Longrightarrow> tick lib s = (Returned False, s)"
  by (auto simp: tick_def Let_def)

subsection \<open>Rotate mode\<close>

text \<open>
  C1. In Rotate mode, on a tick where the task is active, an active model exists, the
  accumulated delta is non-zero and the recorded viewport's camera is orthographic, the
  tick returns true, resets the delta and writes to the active model the product of a
  delta transform with the model's local matrix. The delta transform is the rotation the
  library builds from the angle \<open>(deltaX - deltaY) * 0.002\<close> and the axis obtained by
  applying the camera's decomposed orientation to \<open>(0, 0, -1)\<close>. In particular, with
  \<open>deltaX = 100\<close>, \<open>deltaY = 0\<close> and the identity orientation (a quaternion that leaves
  the axis where it is), it is the rotation of \<open>0.2\<close> radians about \<open>(0, 0, -1)\<close>.
\<close>

theorem tick_rotate:
  assumes "isActiveTask s" "ins_mode s = Rotate" "activeModel s = Some am"
    "p_deltaX s \<noteq> 0 \<or> p_deltaY s \<noteq> 0"
    "p_viewport s = Some vp" "camera (viewports s vp) = Some cam" "isOrthographicCamera cam"
  shows "tick lib s =
      (Returned True,
       s\<lparr>p_deltaX := 0, p_deltaY := 0,
         models := (models s)(am := setFromMatrix (models s am)
           (multiply lib (spec_rotation lib cam (p_deltaX s) (p_deltaY s))
              (object3D_matrix (models s am))))\<rparr>)
    \<and> (p_deltaX s = 100 \<and> p_deltaY s = 0 \<and> orientation lib cam = Quaternion 0 0 0 1 \<and>
        applyQuaternion lib (Vector3 0 0 (- 1)) (Quaternion 0 0 0 1) = Vector3 0 0 (- 1) \<longrightarrow>
        spec_rotation lib cam (p_deltaX s) (p_deltaY s) =
          makeRotationFromQuaternion lib (setFromAxisAngle lib (Vector3 0 0 (- 1)) 0.2))"
proof
  have "ins_mode s \<noteq> Off" using assms(2) by simp
  from tick_applies [OF assms(1) this assms(3-7), of lib] assms(2)
  show "tick lib s =
      (Returned True,
       s\<lparr>p_deltaX := 0, p_deltaY := 0,
         models := (models s)(am := setFromMatrix (models s am)
           (multiply lib (spec_rotation lib cam (p_deltaX s) (p_deltaY s))
              (object3D_matrix (models s am))))\<rparr>)"
    by simp
next
  show "p_deltaX s = 100 \<and> p_deltaY s = 0 \<and> orientation lib cam = Quaternion 0 0 0 1 \<and>
        applyQuaternion lib (Vector3 0 0 (- 1)) (Quaternion 0 0 0 1) = Vector3 0 0 (- 1) \<longrightarrow>
        spec_rotation lib cam (p_deltaX s) (p_deltaY s) =
          makeRotationFromQuaternion lib (setFromAxisAngle lib (Vector3 0 0 (- 1)) 0.2)"
    by (simp add: spec_rotation_def)
qed

text \<open>
  With the library instance over the reals: a drag of \<open>(100, 0)\<close> against the sample camera
  turns the model by \<open>0.2\<close> radians about \<open>(0, 0, -1)\<close>.
\<close>

theorem tick_rotate_witness:
  "tick three_real (sample_task Rotate 100 0) =
     (Returned True,
      (sample_task Rotate 0 0)\<lparr>models := (\<lambda>r. sample_model)(0 := sample_model\<lparr>pose :=
         Matrix4 (cos 0.2) (- sin 0.2) 0 0
                 (sin 0.2) (cos 0.2) 0 0
                 0 0 1 0
                 0 0 0 1\<rparr>)\<rparr>)"
  using tick_rotate [of "sample_task Rotate 100 0" 0 0 sample_camera three_real]
    rotation_about_minus_z [of "0.1"]
  by (simp add: sample_task_fields three_real_fields sample_object_fields sample_orientation
      multiply_real_identity setFromMatrix_def
      del: setFromAxisAngle_real.simps makeRotationFromQuaternion_real.simps multiply_real.simps)

subsection \<open>Translate mode\<close>



subsection \<open>Composition with the model's local matrix\<close>

text \<open>
  C3. Whenever a tick applies a pose edit (it returns true), the matrix written back as
  the active model's pose is \<open>delta.multiply(model.object3D.matrix)\<close>: the delta transform
  of the mode, multiplied on the left of the model's current local matrix. The local
  matrix itself and every other model are left as they were.
\<close>

theorem tick_premultiplies:
  assumes "tick lib s = (Returned True, s')" "activeModel s = Some am"
    "p_viewport s = Some vp" "camera (viewports s vp) = Some cam"
    "delta = (if ins_mode s = Rotate then spec_rotation lib cam (p_deltaX s) (p_deltaY s)
              else spec_translation lib cam (height (viewports s vp)) (p_deltaX s) (p_deltaY s))"
  shows "pose (models s' am) = multiply lib delta (object3D_matrix (models s am))
    \<and> object3D_matrix (models s' am) = object3D_matrix (models s am)
    \<and> (\<forall>r. r \<noteq> am \<longrightarrow> models s' r = models s r)"
proof -
  from assms(1) have t: "fst (tick lib s) = Returned True" by simp
  with assms(2-4) have g: "isActiveTask s" "ins_mode s \<noteq> Off" "p_deltaX s \<noteq> 0 \<or> p_deltaY s \<noteq> 0"
    "isOrthographicCamera cam"
    by (auto simp: tick_true_iff)
  from tick_applies [OF g(1,2) assms(2) g(3) assms(3,4) g(4), of lib] assms(1,5)
  show ?thesis by (auto simp: setFromMatrix_def)
qed

text \<open>
  A model scaled by 2 and a translation by \<open>(1, 0, 0)\<close>: the written pose has the
  translation \<open>(1, 0, 0)\<close> of the product delta times local matrix, not the \<open>(2, 0, 0)\<close> of
  the product in the other order.
\<close>

theorem tick_premultiplies_witness:
  "pose (models (snd (tick three_real scaled_task)) 0) =
     Matrix4 2 0 0 0  0 2 0 0  0 0 2 0  1 0 0 1
   \<and> multiply_real (object3D_matrix scaled_model) (setPosition_real identity_real (Vector3 1 0 0)) =
     Matrix4 2 0 0 0  0 2 0 0  0 0 2 0  2 0 0 1"
proof -
  have t: "tick three_real scaled_task = (Returned True, snd (tick three_real scaled_task))"
    using tick_true_iff [of three_real scaled_task]
    by (simp add: scaled_task_def sample_task_fields sample_object_fields prod_eq_iff)
  have d: "setPosition_real identity_real (Vector3 1 0 0) =
     (if ins_mode scaled_task = Rotate
      then spec_rotation three_real sample_camera (p_deltaX scaled_task) (p_deltaY scaled_task)
      else spec_translation three_real sample_camera (height (viewports scaled_task 0))
             (p_deltaX scaled_task) (p_deltaY scaled_task))"
    by (simp add: scaled_task_def sample_task_fields sample_object_fields spec_translation_def
        three_real_fields sample_orientation)
  from tick_premultiplies [where am = 0 and vp = 0 and cam = sample_camera, OF t _ _ _ d]
  show ?thesis
    by (simp add: scaled_task_def sample_task_fields sample_object_fields three_real_fields
        scaled_model_def identity_real_def)
qed

subsection \<open>The guard of a tick and the draining of the delta\<close>

text \<open>
  C5. A tick applies an edit (returns true) exactly when the task is active, the mode is
  not Off, an active model exists, the accumulated delta is non-zero and the recorded
  viewport has an orthographic camera; a tick that does not return true leaves every
  model as it was. Whenever a tick gets as far as using the delta (task active, mode not
  Off, an active model), both components are zero afterwards. So a second tick right
  after an applied edit, with no pointer event in between, returns false and changes
  nothing.
\<close>

theorem tick_guarded_and_drained:
  "(fst (tick lib s) = Returned True \<longleftrightarrow>
      isActiveTask s \<and> ins_mode s \<noteq> Off \<and> activeModel s \<noteq> None \<and>
      (p_deltaX s \<noteq> 0 \<or> p_deltaY s \<noteq> 0) \<and> orthographicSource s)
   \<and> (models (snd (tick lib s)) \<noteq> models s \<longrightarrow> fst (tick lib s) = Returned True)
   \<and> (isActiveTask s \<and> ins_mode s \<noteq> Off \<and> activeModel s \<noteq> None \<longrightarrow>
        p_deltaX (snd (tick lib s)) = 0 \<and> p_deltaY (snd (tick lib s)) = 0)
   \<and> (fst (tick lib s) = Returned True \<longrightarrow>
        tick lib (snd (tick lib s)) = (Returned False, snd (tick lib s)))"
proof (intro conjI)
  show "fst (tick lib s) = Returned True \<longleftrightarrow>
      isActiveTask s \<and> ins_mode s \<noteq> Off \<and> activeModel s \<noteq> None \<and>
      (p_deltaX s \<noteq> 0 \<or> p_deltaY s \<noteq> 0) \<and> orthographicSource s"
    unfolding tick_true_iff by (auto simp: orthographicSource_def split: option.splits)
  show "models (snd (tick lib s)) \<noteq> models s \<longrightarrow> fst (tick lib s) = Returned True"
    using tick_models_unchanged [of lib s] by blast
  show "isActiveTask s \<and> ins_mode s \<noteq> Off \<and> activeModel s \<noteq> None \<longrightarrow>
        p_deltaX (snd (tick lib s)) = 0 \<and> p_deltaY (snd (tick lib s)) = 0"
    using tick_drains [of s lib] by blast
  show "fst (tick lib s) = Returned True \<longrightarrow>
        tick lib (snd (tick lib s)) = (Returned False, snd (tick lib s))"
  proof
    assume t: "fst (tick lib s) = Returned True"
    then have "isActiveTask s" "ins_mode s \<noteq> Off" "activeModel s \<noteq> None"
      by (simp_all add: tick_true_iff)
    then have "p_deltaX (snd (tick lib s)) = 0" "p_deltaY (snd (tick lib s)) = 0"
      using tick_drains [of s lib] by simp_all
    then show "tick lib (snd (tick lib s)) = (Returned False, snd (tick lib s))"
      by (rule tick_zero_delta)
  qed
qed

text \<open>
  A Rotate drag of \<open>(100, 0)\<close> is applied once and the next tick does nothing; the same
  delta with the mode Off is not applied.
\<close>

theorem tick_guarded_and_drained_witness:
  "fst (tick three_real (sample_task Rotate 100 0)) = Returned True
   \<and> orthographicSource (sample_task Rotate 100 0)
   \<and> p_deltaX (snd (tick three_real (sample_task Rotate 100 0))) = 0
   \<and> p_deltaY (snd (tick three_real (sample_task Rotate 100 0))) = 0
   \<and> tick three_real (snd (tick three_real (sample_task Rotate 100 0))) =
       (Returned False, snd (tick three_real (sample_task Rotate 100 0)))
   \<and> fst (tick three_real (sample_task Off 100 0)) = Returned False
   \<and> models (snd (tick three_real (sample_task Off 100 0))) = models (sample_task Off 100 0)"
  using tick_guarded_and_drained [of three_real "sample_task Rotate 100 0"]
    tick_guarded_and_drained [of three_real "sample_task Off 100 0"]
  by (auto simp: sample_task_fields sample_object_fields orthographicSource_def
      tick_def [of three_real "sample_task Off 100 0"])

text \<open>
  C10. On a tick where the task is active, the mode is not Off, an active model exists and
  the accumulated delta is non-zero, but the recorded viewport's camera is \<open>null\<close> or not
  orthographic, the tick returns false; the delta is reset to zero and nothing else
  changes, so the model's transform is as it was.
\<close>

theorem tick_discards_delta:
  assumes "isActiveTask s" "ins_mode s \<noteq> Off" "activeModel s = Some am"
    "p_deltaX s \<noteq> 0 \<or> p_deltaY s \<noteq> 0" "p_viewport s = Some vp"
    "case camera (viewports s vp) of None \<Rightarrow> True | Some cam \<Rightarrow> \<not> isOrthographicCamera cam"
  shows "tick lib s = (Returned False, s\<lparr>p_deltaX := 0, p_deltaY := 0\<rparr>)"
  using assms by (auto simp: tick_def Let_def split: option.splits)

theorem tick_discards_delta_witness:
  "p_deltaX perspective_task = 3 \<and> p_deltaY perspective_task = 4
   \<and> tick three_real perspective_task =
       (Returned False, perspective_task\<lparr>p_deltaX := 0, p_deltaY := 0\<rparr>)
   \<and> models (snd (tick three_real perspective_task)) = models perspective_task"
  using tick_discards_delta [of perspective_task 0 0 three_real]
  by (simp add: perspective_task_def sample_task_def)

section \<open>What the pointer handler does\<close>

lemma onPointer_closed_gate:
  "ins_mode this = Off \<or> activeModel this = None \<Longrightarrow> onPointer event this = (event, this)"
  by (simp add: onPointer_def)

lemma onPointer_open_gate:
  assumes "ins_mode s \<noteq> Off" "activeModel s \<noteq> None" "buttons e = 1"
  shows "onPointer e s =
     (consumed e,
      if isMove e
      then s\<lparr>p_deltaX := p_deltaX s + movementX e * speedOf e,
             p_deltaY := p_deltaY s + movementY e * speedOf e,
             p_viewport := viewport e\<rparr>
      else s)"
  using assms by (auto simp: onPointer_def consumed_def isMove_def speedOf_def Let_def)

lemma onPointer_frame:
  "models (snd (onPointer e s)) = models s \<and> views (snd (onPointer e s)) = views s
   \<and> activeModel (snd (onPointer e s)) = activeModel s \<and> ins_mode (snd (onPointer e s)) = ins_mode s"
  by (simp add: onPointer_def Let_def)

lemma onPointers_accumulate:
  assumes "ins_mode s \<noteq> Off" "activeModel s \<noteq> None" "\<forall>e\<in>set es. buttons e = 1"
  shows "fst (onPointers es s) = map consumed es
    \<and> p_deltaX (snd (onPointers es s)) = p_deltaX s + fst (dragSum es)
    \<and> p_deltaY (snd (onPointers es s)) = p_deltaY s + snd (dragSum es)"
  using assms
proof (induction es arbitrary: s)
  case Nil
  then show ?case by (simp add: dragSum_def)
next
  case (Cons e es)
  let ?s' = "snd (onPointer e s)"
  have b: "buttons e = 1" and bs: "\<forall>e\<in>set es. buttons e = 1"
    using Cons.prems(3) by simp_all
  have step: "onPointer e s = (consumed e, ?s')"
    using onPointer_open_gate [OF Cons.prems(1,2) b] by simp
  have gate: "ins_mode ?s' \<noteq> Off" "activeModel ?s' \<noteq> None"
    using onPointer_frame [of e s] Cons.prems(1,2) by simp_all
  have dx: "p_deltaX ?s' = p_deltaX s + (if isMove e then movementX e * speedOf e else 0)"
    and dy: "p_deltaY ?s' = p_deltaY s + (if isMove e then movementY e * speedOf e else 0)"
    using onPointer_open_gate [OF Cons.prems(1,2) b] by auto
  from Cons.IH [OF gate bs] step dx dy
  show ?case
    by (auto simp: dragSum_def split: prod.splits)
qed

text \<open>
  C9. A pointer event received while the mode is Off or there is no active model leaves
  the event (its \<open>stopPropagation\<close> flag included) and the task (accumulated delta and
  recorded viewport included) exactly as they were; a whole drag received in such a state
  contributes nothing to the delta.
\<close>

theorem onPointer_gated:
  assumes "ins_mode this = Off \<or> activeModel this = None"
  shows "onPointer event this = (event, this) \<and> onPointers events this = (events, this)"
proof
  show "onPointer event this = (event, this)"
    using assms by (rule onPointer_closed_gate)
  show "onPointers events this = (events, this)"
    by (induction events) (simp_all add: onPointer_closed_gate [OF assms])
qed

theorem onPointer_gated_witness:
  "ins_mode (sample_task Off 0 0) = Off
   \<and> onPointer (sample_move 5 3 False False) (sample_task Off 0 0) =
       (sample_move 5 3 False False, sample_task Off 0 0)
   \<and> onPointers [sample_move 5 3 False False, sample_move 2 1 True False] (sample_task Off 0 0) =
       ([sample_move 5 3 False False, sample_move 2 1 True False], sample_task Off 0 0)"
  using onPointer_gated [of "sample_task Off 0 0" "sample_move 5 3 False False"
      "[sample_move 5 3 False False, sample_move 2 1 True False]"]
  by (simp add: sample_task_fields onPointer_def)

text \<open>
  C4, as stated: for every drag with the primary button held, the accumulated delta
  before the next tick equals the sum over the intervening move events of
  \<open>(movementX * speed, movementY * speed)\<close>, and each such move event is marked as consumed.
  This fails in two ways. With the mode Off, a primary-button move of \<open>(5, 3)\<close> leaves the
  delta at \<open>(0, 0)\<close> and the event unmarked. And a delta of \<open>(5, 3)\<close> that a tick did not
  drain (the mode was Off at that tick) is still there when the next drag adds \<open>(2, 1)\<close>:
  the delta before the next tick is \<open>(7, 4)\<close>, the sum over the events since the tick
  \<open>(2, 1)\<close>.
\<close>

theorem drag_sum_counterexample:
  "buttons (sample_move 5 3 False False) = 1
   \<and> isMove (sample_move 5 3 False False)
   \<and> dragSum [sample_move 5 3 False False] = (5, 3)
   \<and> p_deltaX (sample_task Off 0 0) = 0 \<and> p_deltaY (sample_task Off 0 0) = 0
   \<and> onPointers [sample_move 5 3 False False] (sample_task Off 0 0) =
       ([sample_move 5 3 False False], sample_task Off 0 0)
   \<and> \<not> stopPropagation (sample_move 5 3 False False)
   \<and> run three_real
       [Pointer (sample_move 5 3 False False), SetMode Off, Tick, SetMode Rotate,
        Pointer (sample_move 2 1 False False)]
       (sample_task Rotate 0 0) =
       ([Dispatched ((sample_move 5 3 False False)\<lparr>stopPropagation := True\<rparr>), ModeSet,
         Ticked (Returned False), ModeSet,
         Dispatched ((sample_move 2 1 False False)\<lparr>stopPropagation := True\<rparr>)],
        sample_task Rotate 7 4)
   \<and> dragSum [sample_move 2 1 False False] = (2, 1)"
  by (simp add: sample_move_fields isMove_def dragSum_def speedOf_def sample_task_fields
      onPointer_def emitPointer_def tick_def)
     (simp add: sample_task_def)

text \<open>
  C4, amended. For every drag with the primary button held that is received while the mode
  is not Off and an active model exists, the accumulated delta after the drag equals the
  delta at its start plus the sum over the drag's move events of
  \<open>(movementX * speed, movementY * speed)\<close>, where the speed is 0.1 if Ctrl is pressed,
  else 10 if Shift is pressed, else 1; so it equals that sum when the delta was zero at
  the start. Each such move event is marked as consumed and records its viewport; the
  other events of the drag are left as they were.
\<close>

theorem onPointer_accumulates:
  assumes "ins_mode s \<noteq> Off" "activeModel s \<noteq> None" "\<forall>e\<in>set es. buttons e = 1"
  shows "fst (onPointers es s) = map consumed es
    \<and> p_deltaX (snd (onPointers es s)) = p_deltaX s + fst (dragSum es)
    \<and> p_deltaY (snd (onPointers es s)) = p_deltaY s + snd (dragSum es)
    \<and> (p_deltaX s = 0 \<and> p_deltaY s = 0 \<longrightarrow>
         (p_deltaX (snd (onPointers es s)), p_deltaY (snd (onPointers es s))) = dragSum es)
    \<and> (buttons e = 1 \<and> isMove e \<longrightarrow>
         onPointer e s =
           (e\<lparr>stopPropagation := True\<rparr>,
            s\<lparr>p_deltaX := p_deltaX s + movementX e * (if ctrlKey e then 0.1 else if shiftKey e then 10 else 1),
              p_deltaY := p_deltaY s + movementY e * (if ctrlKey e then 0.1 else if shiftKey e then 10 else 1),
              p_viewport := viewport e\<rparr>))"
  using onPointers_accumulate [OF assms] onPointer_open_gate [OF assms(1,2), of e]
  by (simp add: consumed_def speedOf_def prod_eq_iff)

text \<open>
  A drag of four events in Rotate mode: a plain move, a move with Ctrl and Shift (speed
  0.1), a pointer-up (ignored) and a move with Shift (speed 10).
\<close>

theorem onPointer_accumulates_witness:
  "fst (onPointers [sample_move 5 3 False False, sample_move 2 1 True True, sample_up,
         sample_move 1 1 False True] (sample_task Rotate 0 0)) =
     [(sample_move 5 3 False False)\<lparr>stopPropagation := True\<rparr>,
      (sample_move 2 1 True True)\<lparr>stopPropagation := True\<rparr>, sample_up,
      (sample_move 1 1 False True)\<lparr>stopPropagation := True\<rparr>]
   \<and> p_deltaX (snd (onPointers [sample_move 5 3 False False, sample_move 2 1 True True, sample_up,
         sample_move 1 1 False True] (sample_task Rotate 0 0))) = 15.2
   \<and> p_deltaY (snd (onPointers [sample_move 5 3 False False, sample_move 2 1 True True, sample_up,
         sample_move 1 1 False True] (sample_task Rotate 0 0))) = 13.1
   \<and> onPointer (sample_move 2 1 True True) (sample_task Rotate 0 0) =
       ((sample_move 2 1 True True)\<lparr>stopPropagation := True\<rparr>,
        (sample_task Rotate 0.2 0.1)\<lparr>p_viewport := Some 0\<rparr>)"
  using onPointer_accumulates [of "sample_task Rotate 0 0"
      "[sample_move 5 3 False False, sample_move 2 1 True True, sample_up,
        sample_move 1 1 False True]" "sample_move 2 1 True True"]
  by (simp add: sample_task_fields sample_move_fields consumed_def isMove_def dragSum_def
      speedOf_def sample_up_def sample_task_def)

section \<open>Runs of the task\<close>

lemma step_without_model:
  assumes "activeModel s = None"
  shows "activeModel (snd (step lib a s)) = None \<and> models (snd (step lib a s)) = models s
    \<and> fst (step lib a s) \<noteq> Ticked TypeError \<and> fst (step lib a s) \<noteq> Ticked (Returned True)"
proof (cases a)
  case Tick
  then show ?thesis using assms by (simp add: tick_no_model)
next
  case (Pointer e)
  then show ?thesis using assms by (simp add: emitPointer_def onPointer_closed_gate)
next
  case (SetMode m)
  then show ?thesis using assms by simp
qed

lemma run_without_model:
  assumes "activeModel s = None"
  shows "activeModel (snd (run lib as s)) = None \<and> models (snd (run lib as s)) = models s
    \<and> (\<forall>out\<in>set (fst (run lib as s)). out \<noteq> Ticked TypeError \<and> out \<noteq> Ticked (Returned True))"
  using assms
proof (induction as arbitrary: s)
  case Nil
  then show ?case by simp
next
  case (Cons a as)
  from step_without_model [OF Cons.prems, of lib a]
  have s1: "activeModel (snd (step lib a s)) = None"
    and s2: "models (snd (step lib a s)) = models s"
    and s3: "fst (step lib a s) \<noteq> Ticked TypeError" "fst (step lib a s) \<noteq> Ticked (Returned True)"
    by simp_all
  from Cons.IH [OF s1] s2 s3 show ?case
    by (simp add: split_beta)
qed

lemma onActiveNode_without_model:
  assumes "case next of None \<Rightarrow> True | Some n \<Rightarrow> model n = None"
  shows "onActiveNode lib previous next s = s\<lparr>activeModel := None\<rparr>"
  using assms by (simp add: onActiveNode_def split: option.splits)

text \<open>
  C6. When the active node changes to \<open>null\<close> or to a node without a model, the active
  model becomes \<open>null\<close>. From then on, whatever ticks, pointer events and changes of the
  mode follow, the active model stays \<open>null\<close>, no model is modified, no tick throws or
  returns true, and the next tick returns false leaving the task as it is.
\<close>

theorem no_model_no_edit:
  assumes "case next of None \<Rightarrow> True | Some n \<Rightarrow> model n = None"
    and "s1 = onActiveNode lib previous next s"
  shows "activeModel s1 = None \<and> models s1 = models s
    \<and> activeModel (snd (run lib as s1)) = None
    \<and> models (snd (run lib as s1)) = models s
    \<and> (\<forall>out\<in>set (fst (run lib as s1)). out \<noteq> Ticked TypeError \<and> out \<noteq> Ticked (Returned True))
    \<and> tick lib (snd (run lib as s1)) = (Returned False, snd (run lib as s1))"
proof -
  have a: "activeModel s1 = None" and m: "models s1 = models s"
    using onActiveNode_without_model [OF assms(1), of lib previous s] assms(2) by simp_all
  from run_without_model [OF a, of lib as] m a
  show ?thesis by (simp add: tick_no_model)
qed

text \<open>
  A task in Rotate mode with a pending delta of \<open>(3, 4)\<close> whose active node changes to a
  node without a model: a drag, a tick, a change to Translate and another tick do nothing
  but set the mode.
\<close>

theorem no_model_no_edit_witness:
  "activeModel (onActiveNode three_real None (Some \<lparr>model = None\<rparr>) (sample_task Rotate 3 4)) = None
   \<and> run three_real [Pointer (sample_move 5 3 False False), Tick, SetMode Translate, Tick]
       (onActiveNode three_real None (Some \<lparr>model = None\<rparr>) (sample_task Rotate 3 4)) =
       ([Dispatched (sample_move 5 3 False False), Ticked (Returned False), ModeSet,
         Ticked (Returned False)],
        (sample_task Translate 3 4)\<lparr>activeModel := None\<rparr>)"
  using no_model_no_edit [of "Some \<lparr>model = None\<rparr>"
      "onActiveNode three_real None (Some \<lparr>model = None\<rparr>) (sample_task Rotate 3 4)"
      three_real None "sample_task Rotate 3 4"
      "[Pointer (sample_move 5 3 False False), Tick, SetMode Translate, Tick]"]
  by (simp add: onActiveNode_def emitPointer_def onPointer_def tick_def)
     (simp add: sample_task_def)

lemma step_deactivated:
  assumes "\<not> isActiveTask s" "\<not> pointerListening s"
  shows "snd (step lib a s) = (case a of SetMode m \<Rightarrow> s\<lparr>ins_mode := m\<rparr> | _ \<Rightarrow> s)"
  using assms by (cases a) (simp_all add: tick_inactive emitPointer_def)

lemma run_deactivated:
  assumes "\<not> isActiveTask s" "\<not> pointerListening s"
  shows "\<not> isActiveTask (snd (run lib as s)) \<and> \<not> pointerListening (snd (run lib as s))
    \<and> models (snd (run lib as s)) = models s \<and> views (snd (run lib as s)) = views s
    \<and> p_deltaX (snd (run lib as s)) = p_deltaX s \<and> p_deltaY (snd (run lib as s)) = p_deltaY s"
  using assms
proof (induction as arbitrary: s)
  case Nil
  then show ?case by simp
next
  case (Cons a as)
  let ?s' = "snd (step lib a s)"
  have eq: "?s' = (case a of SetMode m \<Rightarrow> s\<lparr>ins_mode := m\<rparr> | _ \<Rightarrow> s)"
    using Cons.prems by (rule step_deactivated)
  then have inv: "\<not> isActiveTask ?s'" "\<not> pointerListening ?s'"
    and same: "models ?s' = models s" "views ?s' = views s"
      "p_deltaX ?s' = p_deltaX s" "p_deltaY ?s' = p_deltaY s"
    using Cons.prems by (simp_all split: action.splits)
  from Cons.IH [OF inv] same show ?case
    by (simp add: split_beta)
qed

lemma setLayout_cases: "setLayout l v = RenderQuadView l \<or> setLayout l v = OtherView"
  by (cases v) (simp_all add: setLayout_def)

text \<open>
  C7. After \<open>deactivateTask\<close> the pointer handler is no longer subscribed and every
  \<open>RenderQuadView\<close> has the layout Single. A pointer event emitted afterwards does not
  reach the handler; whatever pointer events, ticks and changes of the mode follow, the
  models, the views and the accumulated delta stay as they were. (The handler itself
  never writes a model or a view, in any state.) Symmetrically, after \<open>activateTask\<close> the
  handler is subscribed, an emitted pointer event reaches it, and every \<open>RenderQuadView\<close>
  has the layout Quad.
\<close>

theorem deactivate_silences:
  "\<not> pointerListening (deactivateTask s)
   \<and> views (deactivateTask s) = map (setLayout Single) (views s)
   \<and> (\<forall>v\<in>set (views (deactivateTask s)). v = RenderQuadView Single \<or> v = OtherView)
   \<and> emitPointer e (deactivateTask s) = (e, deactivateTask s)
   \<and> models (snd (run lib as (deactivateTask s))) = models s
   \<and> views (snd (run lib as (deactivateTask s))) = views (deactivateTask s)
   \<and> p_deltaX (snd (run lib as (deactivateTask s))) = p_deltaX s
   \<and> p_deltaY (snd (run lib as (deactivateTask s))) = p_deltaY s
   \<and> models (snd (onPointer e t)) = models t \<and> views (snd (onPointer e t)) = views t
   \<and> pointerListening (activateTask s)
   \<and> views (activateTask s) = map (setLayout Quad) (views s)
   \<and> (\<forall>v\<in>set (views (activateTask s)). v = RenderQuadView Quad \<or> v = OtherView)
   \<and> emitPointer e (activateTask s) = onPointer e (activateTask s)"
proof -
  have d: "\<not> isActiveTask (deactivateTask s)" "\<not> pointerListening (deactivateTask s)"
    "views (deactivateTask s) = map (setLayout Single) (views s)"
    "models (deactivateTask s) = models s"
    "p_deltaX (deactivateTask s) = p_deltaX s" "p_deltaY (deactivateTask s) = p_deltaY s"
    by (simp_all add: deactivateTask_def)
  have a: "pointerListening (activateTask s)"
    "views (activateTask s) = map (setLayout Quad) (views s)"
    by (simp_all add: activateTask_def)
  have l: "\<forall>v\<in>set (map (setLayout l) vs). v = RenderQuadView l \<or> v = OtherView" for l vs
    using setLayout_cases by auto
  from run_deactivated [OF d(1,2), of lib as] d a l onPointer_frame [of e t] show ?thesis
    by (simp add: emitPointer_def)
qed

text \<open>
  The sample task (one quad view in the Quad layout, one other view, a pending delta)
  deactivated: a drag and a tick change nothing; activated again, the quad view is back
  in the Quad layout.
\<close>

theorem deactivate_silences_witness:
  "views (deactivateTask (sample_task Rotate 3 4)) = [RenderQuadView Single, OtherView]
   \<and> \<not> pointerListening (deactivateTask (sample_task Rotate 3 4))
   \<and> run three_real [Pointer (sample_move 5 3 False False), Tick]
       (deactivateTask (sample_task Rotate 3 4)) =
       ([Dispatched (sample_move 5 3 False False), Ticked (Returned False)],
        deactivateTask (sample_task Rotate 3 4))
   \<and> views (activateTask (deactivateTask (sample_task Rotate 3 4))) =
       [RenderQuadView Quad, OtherView]
   \<and> pointerListening (activateTask (deactivateTask (sample_task Rotate 3 4)))"
  using deactivate_silences [of "sample_task Rotate 3 4" "sample_move 5 3 False False" three_real
      "[Pointer (sample_move 5 3 False False), Tick]"]
    deactivate_silences [of "deactivateTask (sample_task Rotate 3 4)"]
  by (simp add: deactivateTask_def activateTask_def sample_task_def setLayout_def emitPointer_def
      tick_def)

section \<open>What a resize does\<close>

text \<open>
  C8. Whenever \<open>onResize\<close> runs on an element that has its canvas, it reads the canvas's
  \<open>clientWidth\<close> and \<open>clientHeight\<close>, calls \<open>view.resize\<close> with exactly these two values
  if the view exists, and dispatches one \<open>sv-resize\<close> event whose \<open>detail.width\<close> and
  \<open>detail.height\<close> are these same values.
\<close>

theorem onResize_measures:
  assumes "canvas this = Some c"
  shows "onResize this =
     Inr (this\<lparr>view := map_option
                  (\<lambda>v. v\<lparr>resizeCalls := resizeCalls v @ [(clientWidth c, clientHeight c)]\<rparr>)
                  (view this),
               dispatched := dispatched this @
                  [\<lparr>eventName = ''sv-resize'', detail_width = clientWidth c,
                    detail_height = clientHeight c\<rparr>]\<rparr>)"
  using assms by (cases "view this") (simp_all add: onResize_def resizeEvent_def Let_def)

theorem onResize_measures_witness:
  "onResize sample_layer =
     Inr \<lparr> view = Some \<lparr>resizeCalls = [(800, 600)]\<rparr>,
           canvas = Some \<lparr>clientWidth = 800, clientHeight = 600\<rparr>,
           dispatched = [\<lparr>eventName = ''sv-resize'', detail_width = 800, detail_height = 600\<rparr>] \<rparr>"
  using onResize_measures [of sample_layer "\<lparr>clientWidth = 800, clientHeight = 600\<rparr>"]
  by (simp add: sample_layer_def)

end
